theory Spec2Isabelle
  imports Complex_Main
begin

section \<open>RSI computation and signal interpretation (utils/rsi.py, inputs/bitcoin_price/plugin.py)\<close>

text \<open>
  The embedding follows \<^verbatim>\<open>calculate_rsi\<close> and \<^verbatim>\<open>interpret_rsi\<close> of
  \<^verbatim>\<open>utils/rsi.py\<close> and \<^verbatim>\<open>BitcoinPriceInput._interpret_rsi\<close> of the Bitcoin
  price plugin line by line.

  Numbers: a Python/numpy float is modelled as an exact real number, extended with the
  three special values that numpy produces instead of raising (\<open>nan\<close> for the mean of
  an empty slice and for \<open>0/0\<close>, \<open>\<plusminus>inf\<close> for a non-zero value divided by zero). Rounding
  and overflow of IEEE doubles are not modelled: every statement below is about exact
  arithmetic, and only properties that do not depend on rounding or overflow are stated
  as claims. Prices that enter the function are finite reals. The period is a Python
  \<^verbatim>\<open>int\<close>, hence an unbounded integer that may be zero or negative.
\<close>

subsection \<open>Python errors and numpy floats\<close>

datatype error = IndexError | KeyError | TypeError

datatype npfloat = Fin real | PosInf | NegInf | NaN

text \<open>The infinity carrying the sign of \<open>s\<close>; \<open>nan\<close> when \<open>s\<close> is zero.\<close>

definition inf_of_sign :: "real \<Rightarrow> npfloat" where
  "inf_of_sign s = (if s = 0 then NaN else if 0 < s then PosInf else NegInf)"

fun np_neg :: "npfloat \<Rightarrow> npfloat" where
  "np_neg (Fin a) = Fin (- a)"
| "np_neg PosInf = NegInf"
| "np_neg NegInf = PosInf"
| "np_neg NaN = NaN"

fun np_add :: "npfloat \<Rightarrow> npfloat \<Rightarrow> npfloat" where
  "np_add NaN _ = NaN"
| "np_add _ NaN = NaN"
| "np_add (Fin a) (Fin b) = Fin (a + b)"
| "np_add PosInf NegInf = NaN"
| "np_add NegInf PosInf = NaN"
| "np_add PosInf _ = PosInf"
| "np_add NegInf _ = NegInf"
| "np_add (Fin a) PosInf = PosInf"
| "np_add (Fin a) NegInf = NegInf"

definition np_sub :: "npfloat \<Rightarrow> npfloat \<Rightarrow> npfloat" where
  "np_sub x y = np_add x (np_neg y)"

fun np_mul :: "npfloat \<Rightarrow> npfloat \<Rightarrow> npfloat" where
  "np_mul NaN _ = NaN"
| "np_mul _ NaN = NaN"
| "np_mul (Fin a) (Fin b) = Fin (a * b)"
| "np_mul (Fin a) PosInf = inf_of_sign a"
| "np_mul (Fin a) NegInf = inf_of_sign (- a)"
| "np_mul PosInf (Fin b) = inf_of_sign b"
| "np_mul NegInf (Fin b) = inf_of_sign (- b)"
| "np_mul PosInf PosInf = PosInf"
| "np_mul PosInf NegInf = NegInf"
| "np_mul NegInf PosInf = NegInf"
| "np_mul NegInf NegInf = PosInf"

text \<open>
  Division of numpy scalars never raises: a zero divisor gives \<open>\<plusminus>inf\<close> or \<open>nan\<close>
  (with a RuntimeWarning). The zero divisors that occur in \<^verbatim>\<open>calculate_rsi\<close> are
  the integer \<open>0\<close> and a sum that cancels, both positive zeros.
\<close>

fun np_div :: "npfloat \<Rightarrow> npfloat \<Rightarrow> npfloat" where
  "np_div NaN _ = NaN"
| "np_div _ NaN = NaN"
| "np_div (Fin a) (Fin b) = (if b = 0 then inf_of_sign a else Fin (a / b))"
| "np_div (Fin a) PosInf = Fin 0"
| "np_div (Fin a) NegInf = Fin 0"
| "np_div PosInf (Fin b) = (if 0 \<le> b then PosInf else NegInf)"
| "np_div NegInf (Fin b) = (if 0 \<le> b then NegInf else PosInf)"
| "np_div PosInf _ = NaN"
| "np_div NegInf _ = NaN"

text \<open>Comparisons: every comparison with \<open>nan\<close> is false.\<close>

definition np_eq :: "npfloat \<Rightarrow> npfloat \<Rightarrow> bool" where
  "np_eq x y = (x \<noteq> NaN \<and> x = y)"

fun np_lt :: "npfloat \<Rightarrow> npfloat \<Rightarrow> bool" where
  "np_lt NaN _ = False"
| "np_lt _ NaN = False"
| "np_lt (Fin a) (Fin b) = (a < b)"
| "np_lt PosInf _ = False"
| "np_lt _ NegInf = False"
| "np_lt NegInf _ = True"
| "np_lt (Fin a) PosInf = True"

definition np_gt :: "npfloat \<Rightarrow> npfloat \<Rightarrow> bool" where
  "np_gt x y = np_lt y x"

subsection \<open>Lists and arrays as Python and numpy index them\<close>

text \<open>\<^verbatim>\<open>xs[:k]\<close>: a negative stop counts from the end, and the bounds are clipped.\<close>

definition slice_to :: "'a list \<Rightarrow> int \<Rightarrow> 'a list" where
  "slice_to xs k = (if k < 0 then take (nat (int (length xs) + k)) xs else take (nat k) xs)"

text \<open>
  \<^verbatim>\<open>xs[i]\<close> on an array of \<open>n\<close> elements: positions \<open>0 .. n-1\<close> are read directly,
  positions \<open>-n .. -1\<close> are read from the end, anything else raises IndexError.
\<close>

definition np_get :: "'a list \<Rightarrow> int \<Rightarrow> error + 'a" where
  "np_get xs i =
     (if 0 \<le> i \<and> i < int (length xs) then Inr (xs ! nat i)
      else if i < 0 \<and> - int (length xs) \<le> i then Inr (xs ! nat (int (length xs) + i))
      else Inl IndexError)"

text \<open>\<^verbatim>\<open>np.diff\<close>: the differences of consecutive elements.\<close>

fun np_diff :: "real list \<Rightarrow> real list" where
  "np_diff (x # y # zs) = (y - x) # np_diff (y # zs)"
| "np_diff _ = []"

text \<open>\<^verbatim>\<open>np.mean\<close>: \<open>nan\<close> (and a RuntimeWarning, no exception) on an empty array.\<close>

definition np_mean :: "real list \<Rightarrow> npfloat" where
  "np_mean xs = (if xs = [] then NaN else Fin (sum_list xs / real (length xs)))"

subsection \<open>Price entries\<close>

text \<open>
  An element of the \<^verbatim>\<open>prices\<close> argument is a float or a candle dict (string keys,
  numeric values, as \<^verbatim>\<open>get_historical_data\<close> builds them).
\<close>

datatype entry = Price real | Candle "(string \<times> real) list"

text \<open>\<^verbatim>\<open>[candle['close'] for candle in prices]\<close>\<close>

fun project_close :: "entry list \<Rightarrow> error + entry list" where
  "project_close [] = Inr []"
| "project_close (Price x # rest) = Inl TypeError"
| "project_close (Candle d # rest) =
     (case map_of d ''close'' of
        None \<Rightarrow> Inl KeyError
      | Some c \<Rightarrow> (case project_close rest of Inl e \<Rightarrow> Inl e | Inr cs \<Rightarrow> Inr (Price c # cs)))"

text \<open>\<^verbatim>\<open>np.array(prices, dtype=float)\<close>: a dict among the elements raises TypeError.\<close>

fun to_float_array :: "entry list \<Rightarrow> error + real list" where
  "to_float_array [] = Inr []"
| "to_float_array (Price x # rest) =
     (case to_float_array rest of Inl e \<Rightarrow> Inl e | Inr xs \<Rightarrow> Inr (x # xs))"
| "to_float_array (Candle d # rest) = Inl TypeError"

subsection \<open>\<^verbatim>\<open>calculate_rsi\<close>\<close>

text \<open>\<^verbatim>\<open>np.where(deltas > 0, deltas, 0)\<close> and \<^verbatim>\<open>np.where(deltas < 0, -deltas, 0)\<close>\<close>

definition gains_of :: "real list \<Rightarrow> real list" where
  "gains_of deltas = map (\<lambda>d. if d > 0 then d else 0) deltas"

definition losses_of :: "real list \<Rightarrow> real list" where
  "losses_of deltas = map (\<lambda>d. if d < 0 then - d else 0) deltas"

text \<open>One smoothing assignment: \<^verbatim>\<open>(avg * (period - 1) + new) / period\<close>\<close>

definition smooth_step :: "int \<Rightarrow> npfloat \<Rightarrow> real \<Rightarrow> npfloat" where
  "smooth_step period avg new =
     np_div (np_add (np_mul avg (Fin (of_int (period - 1)))) (Fin new)) (Fin (of_int period))"

text \<open>
  The loop \<^verbatim>\<open>for i in range(period, len(deltas))\<close>, entered at \<open>i\<close> with the two
  averages; \<open>n\<close> is \<^verbatim>\<open>len(deltas)\<close>.
\<close>

function smooth_loop ::
  "int \<Rightarrow> int \<Rightarrow> int \<Rightarrow> real list \<Rightarrow> real list \<Rightarrow> npfloat \<times> npfloat \<Rightarrow> error + (npfloat \<times> npfloat)"
where
  "smooth_loop i n period gains losses (avg_gain, avg_loss) =
     (if i < n then
        (case np_get gains i of
           Inl e \<Rightarrow> Inl e
         | Inr g \<Rightarrow>
            (case np_get losses i of
               Inl e \<Rightarrow> Inl e
             | Inr l \<Rightarrow>
                smooth_loop (i + 1) n period gains losses
                  (smooth_step period avg_gain g, smooth_step period avg_loss l)))
      else Inr (avg_gain, avg_loss))"
  by pat_completeness auto
termination
  by (relation "measure (\<lambda>(i, n, period, gains, losses, acc). nat (n - i))") auto

text \<open>Lines 33 to 46: the averages after seeding and smoothing.\<close>

definition final_averages :: "real list \<Rightarrow> int \<Rightarrow> error + (npfloat \<times> npfloat)" where
  "final_averages prices period =
     (let deltas = np_diff prices;
          gains = gains_of deltas;
          losses = losses_of deltas;
          avg_gain = np_mean (slice_to gains period);
          avg_loss = np_mean (slice_to losses period)
      in smooth_loop period (int (length deltas)) period gains losses (avg_gain, avg_loss))"

text \<open>Lines 49 to 56: the result from the final averages.\<close>

definition rsi_of_averages :: "npfloat \<times> npfloat \<Rightarrow> npfloat" where
  "rsi_of_averages avgs =
     (case avgs of (avg_gain, avg_loss) \<Rightarrow>
        if np_eq avg_loss (Fin 0) then Fin 100
        else let rs = np_div avg_gain avg_loss
             in np_sub (Fin 100) (np_div (Fin 100) (np_add (Fin 1) rs)))"

definition calculate_rsi :: "entry list \<Rightarrow> int \<Rightarrow> error + npfloat" where
  "calculate_rsi prices period =
     (case prices of
        [] \<Rightarrow> Inl IndexError
      | first # _ \<Rightarrow>
         (case (case first of Candle _ \<Rightarrow> project_close prices | Price _ \<Rightarrow> Inr prices) of
            Inl e \<Rightarrow> Inl e
          | Inr prices1 \<Rightarrow>
             if int (length prices1) < period + 1 then Inr (Fin 50)
             else
               (case to_float_array prices1 of
                  Inl e \<Rightarrow> Inl e
                | Inr arr \<Rightarrow>
                   (case final_averages arr period of
                      Inl e \<Rightarrow> Inl e
                    | Inr avgs \<Rightarrow> Inr (rsi_of_averages avgs)))))"

subsection \<open>\<^verbatim>\<open>interpret_rsi\<close> and the plugin's copy\<close>

definition interpret_rsi :: "npfloat \<Rightarrow> string" where
  "interpret_rsi rsi =
     (if np_lt rsi (Fin 30) then ''oversold''
      else if np_gt rsi (Fin 70) then ''overbought''
      else ''neutral'')"

definition plugin_interpret_rsi :: "npfloat \<Rightarrow> string" where
  "plugin_interpret_rsi rsi =
     (if np_lt rsi (Fin 30) then ''oversold''
      else if np_gt rsi (Fin 70) then ''overbought''
      else ''neutral'')"

subsection \<open>The caller in \<^verbatim>\<open>BitcoinPriceInput.fetch\<close>\<close>

text \<open>
  Lines 67 to 71 of the plugin: the history is a list of candle dicts; with enough
  candles the closes are projected and passed to \<^verbatim>\<open>calculate_rsi\<close>, otherwise the
  RSI is the neutral default.
\<close>

definition fetch_rsi :: "entry list \<Rightarrow> int \<Rightarrow> error + npfloat" where
  "fetch_rsi historical rsi_period =
     (if rsi_period \<le> int (length historical) then
        (case project_close historical of
           Inl e \<Rightarrow> Inl e
         | Inr closes \<Rightarrow> calculate_rsi closes rsi_period)
      else Inr (Fin 50))"

subsection \<open>Closed form of the seed and of the smoothing loop\<close>

text \<open>
  For a period of at least 1 and enough prices, the averages that the loop produces are
  the mean of the first \<open>period\<close> values folded with the smoothing step over the rest.
\<close>

definition seed_mean :: "nat \<Rightarrow> real list \<Rightarrow> real" where
  "seed_mean period xs = sum_list (take period xs) / real period"

definition wilder_step :: "nat \<Rightarrow> real \<Rightarrow> real \<Rightarrow> real" where
  "wilder_step period avg new = (avg * (real period - 1) + new) / real period"

definition smoothed_average :: "nat \<Rightarrow> real list \<Rightarrow> real" where
  "smoothed_average period xs = foldl (wilder_step period) (seed_mean period xs) (drop period xs)"

lemma to_float_array_prices: "to_float_array (map Price xs) = Inr xs"
  by (induction xs) simp_all



lemma np_get_in_range:
  "0 \<le> i \<Longrightarrow> i < int (length xs) \<Longrightarrow> np_get xs i = Inr (xs ! nat i)"
  by (simp add: np_get_def)

text \<open>
  The loop equation is used one iteration at a time, through the three lemmas below.
\<close>

declare smooth_loop.simps [simp del]

lemma smooth_loop_done:
  "\<not> i < n \<Longrightarrow> smooth_loop i n p gains losses acc = Inr acc"
  by (cases acc) (simp add: smooth_loop.simps)

lemma smooth_loop_step:
  "i < n \<Longrightarrow> np_get gains i = Inr g \<Longrightarrow> np_get losses i = Inr l \<Longrightarrow>
     smooth_loop i n p gains losses (a, b) =
       smooth_loop (i + 1) n p gains losses (smooth_step p a g, smooth_step p b l)"
  by (subst smooth_loop.simps) simp

lemma smooth_loop_index_error:
  "i < n \<Longrightarrow> i < - int (length gains) \<Longrightarrow>
     smooth_loop i n p gains losses acc = Inl IndexError"
  by (cases acc) (simp add: smooth_loop.simps np_get_def)




subsection \<open>Sign of the averages and the final formula\<close>






lemma losses_of_nonneg: "\<forall>x\<in>set (losses_of ds). 0 \<le> x"
  by (auto simp add: losses_of_def)

lemma foldl_wilder_zero:
  "\<forall>x\<in>set xs. x = 0 \<Longrightarrow> foldl (wilder_step p) 0 xs = 0"
  by (induction xs) (simp_all add: wilder_step_def)

lemma sum_list_zero: "\<forall>x\<in>set xs. x = (0::real) \<Longrightarrow> sum_list xs = 0"
  by (induction xs) simp_all

lemma smoothed_average_zero:
  assumes "\<forall>x\<in>set xs. x = 0"
  shows "smoothed_average p xs = 0"
proof -
  have "\<forall>x\<in>set (take p xs). x = 0" using assms by (auto dest: in_set_takeD)
  then have "seed_mean p xs = 0" by (simp add: seed_mean_def sum_list_zero)
  moreover have "\<forall>x\<in>set (drop p xs). x = 0" using assms by (auto dest: in_set_dropD)
  ultimately show ?thesis by (simp add: smoothed_average_def foldl_wilder_zero)
qed

lemma losses_of_rising: "\<forall>d\<in>set ds. 0 \<le> d \<Longrightarrow> \<forall>x\<in>set (losses_of ds). x = 0"
  by (auto simp add: losses_of_def)


lemma calculate_rsi_prices:
  "xs \<noteq> [] \<Longrightarrow>
   calculate_rsi (map Price xs) p =
     (if int (length xs) < p + 1 then Inr (Fin 50)
      else case final_averages xs p of Inl e \<Rightarrow> Inl e | Inr avgs \<Rightarrow> Inr (rsi_of_averages avgs))"
  by (cases xs) (simp_all add: calculate_rsi_def to_float_array_prices [of "_ # _", simplified])


lemma rsi_less_100:
  assumes "0 \<le> g" and "0 < l"
  shows "0 \<le> 100 - 100 / (1 + g / l)" and "100 - 100 / (1 + g / l) < (100::real)"
proof -
  from assms have "0 \<le> g / l" by simp
  then have pos: "1 \<le> 1 + g / l" by simp
  then have "100 / (1 + g / l) \<le> 100 / 1"
    by (intro divide_left_mono) simp_all
  then have "100 / (1 + g / l) \<le> 100" by simp
  then show "0 \<le> 100 - 100 / (1 + g / l)" by simp
  from pos have "0 < 100 / (1 + g / l)" by simp
  then show "100 - 100 / (1 + g / l) < 100" by simp
qed

subsection \<open>The guard, periods below 1 and candle lists\<close>

text \<open>
  What holds of the insufficient-data guard: every non-empty sequence shorter than
  \<open>period + 1\<close> gives \<open>50.0\<close>, and the plugin never passes an empty history on for a
  period of at least 1.
\<close>

lemma calculate_rsi_insufficient:
  "prices \<noteq> [] \<Longrightarrow> int (length prices) < period + 1 \<Longrightarrow>
     calculate_rsi (map Price prices) period = Inr (Fin 50)"
  by (simp add: calculate_rsi_prices)

lemma fetch_rsi_no_history: "1 \<le> rsi_period \<Longrightarrow> fetch_rsi [] rsi_period = Inr (Fin 50)"
  by (simp add: fetch_rsi_def)

lemma np_get_defined:
  "- int (length xs) \<le> i \<Longrightarrow> i < int (length xs) \<Longrightarrow> \<exists>v. np_get xs i = Inr v"
  by (simp add: np_get_def)

lemma smooth_loop_returns:
  assumes len: "length losses = length gains" and n: "n = int (length gains)"
  shows "k = nat (n - i) \<Longrightarrow> - n \<le> i \<Longrightarrow>
     \<exists>v. smooth_loop i n p gains losses acc = Inr v"
proof (induction k arbitrary: i acc)
  case 0
  then have "\<not> i < n" by simp
  then show ?case by (simp add: smooth_loop_done)
next
  case (Suc k)
  then have lt: "i < n" and k: "k = nat (n - (i + 1))" and lo: "- n \<le> i + 1" by simp_all
  obtain g where g: "np_get gains i = Inr g"
    using np_get_defined [of gains i] Suc.prems(2) lt n by auto
  obtain l where l: "np_get losses i = Inr l"
    using np_get_defined [of losses i] Suc.prems(2) lt n len by auto
  obtain a b where acc: "acc = (a, b)" by (cases acc)
  have "smooth_loop i n p gains losses acc =
      smooth_loop (i + 1) n p gains losses (smooth_step p a g, smooth_step p b l)"
    using smooth_loop_step [OF lt g l] acc by simp
  with Suc.IH [OF k lo] show ?case by simp
qed

lemma smooth_step_nan: "smooth_step p NaN g = NaN"
  by (simp add: smooth_step_def)

lemma smooth_loop_nan:
  assumes len: "length losses = length gains" and n: "n = int (length gains)"
  shows "k = nat (n - i) \<Longrightarrow> 0 \<le> i \<Longrightarrow>
     smooth_loop i n p gains losses (NaN, NaN) = Inr (NaN, NaN)"
proof (induction k arbitrary: i)
  case 0
  then show ?case by (simp add: smooth_loop_done)
next
  case (Suc k)
  then have lt: "i < n" and k: "k = nat (n - (i + 1))" and lo: "0 \<le> i + 1" by simp_all
  have gg: "np_get gains i = Inr (gains ! nat i)"
    and gl: "np_get losses i = Inr (losses ! nat i)"
    using lt Suc.prems(2) n len by (simp_all add: np_get_in_range)
  have "smooth_loop i n p gains losses (NaN, NaN) =
      smooth_loop (i + 1) n p gains losses (NaN, NaN)"
    using smooth_loop_step [OF lt gg gl] by (simp add: smooth_step_nan)
  with Suc.IH [OF k lo] show ?case by simp
qed

lemma rsi_of_averages_nan: "rsi_of_averages (NaN, NaN) = NaN"
  by (simp add: rsi_of_averages_def np_eq_def np_sub_def)

lemma project_close_candles:
  "list_all2 (\<lambda>d c. map_of d ''close'' = Some c) candles closes \<Longrightarrow>
     project_close (map Candle candles) = Inr (map Price closes)"
  by (induction candles closes rule: list_all2_induct) simp_all

section \<open>The claims\<close>

subsection \<open>C2: insufficient data\<close>

text \<open>
  \<^bold>\<open>C2.\<close> The claim promises \<open>50.0\<close> and no error for every sequence shorter than
  \<open>period + 1\<close>, the empty one included. On the empty sequence the code reads
  \<^verbatim>\<open>prices[0]\<close> before it compares the length, and raises IndexError, for every period.
\<close>

theorem calculate_rsi_empty_raises: "calculate_rsi [] period = Inl IndexError"
  by (simp add: calculate_rsi_def)

subsection \<open>C3: periods below 1\<close>

text \<open>
  \<^bold>\<open>C3.\<close> The claim says that a period below 1 is rejected with an InvalidArgument
  condition and that no garbage value is returned; the docstring promises an
  \<open>RSI value (0-100)\<close>. The code never inspects the period: with period 0 the seed is the
  mean of an empty slice, \<open>nan\<close>, every smoothing step keeps it, and the prices 1, 2, 3
  return \<open>nan\<close> as an ordinary result.
\<close>

theorem calculate_rsi_period_zero_nan:
  "calculate_rsi (map Price [1, 2, 3]) 0 = Inr NaN"
  by code_simp

subsection \<open>C5: the three zones\<close>

text \<open>
  \<^bold>\<open>C5.\<close> For every real \<open>r\<close>, \<^verbatim>\<open>interpret_rsi\<close> returns \<^verbatim>\<open>'oversold'\<close> when \<open>r < 30\<close>,
  \<^verbatim>\<open>'overbought'\<close> when \<open>r > 70\<close> and \<^verbatim>\<open>'neutral'\<close> otherwise; 30 and 70 are neutral,
  29.999 is oversold and 70.001 is overbought.
\<close>

theorem interpret_rsi_zones:
  "(r < 30 \<longrightarrow> interpret_rsi (Fin r) = ''oversold'') \<and>
   (70 < r \<longrightarrow> interpret_rsi (Fin r) = ''overbought'') \<and>
   (30 \<le> r \<and> r \<le> 70 \<longrightarrow> interpret_rsi (Fin r) = ''neutral'') \<and>
   interpret_rsi (Fin 30) = ''neutral'' \<and>
   interpret_rsi (Fin 70) = ''neutral'' \<and>
   interpret_rsi (Fin 29.999) = ''oversold'' \<and>
   interpret_rsi (Fin 70.001) = ''overbought''"
  by (simp add: interpret_rsi_def np_gt_def)

text \<open>
  One value in each of the three zones of C5.
\<close>

theorem interpret_rsi_zones_witness:
  "interpret_rsi (Fin 10) = ''oversold'' \<and> interpret_rsi (Fin 90) = ''overbought'' \<and>
   interpret_rsi (Fin 50) = ''neutral''"
  using interpret_rsi_zones [of 10] interpret_rsi_zones [of 90] interpret_rsi_zones [of 50]
  by simp

subsection \<open>C7: monotonicity in the ratio\<close>



subsection \<open>C8: candle records\<close>

text \<open>
  \<^bold>\<open>C8.\<close> For every non-empty list of candle dicts that each carry a numeric
  \<^verbatim>\<open>'close'\<close>, and every period (in particular every \<open>period \<ge> 1\<close>), \<^verbatim>\<open>calculate_rsi\<close>
  on the candles gives the same result, value or error, as \<^verbatim>\<open>calculate_rsi\<close> on the
  list of their close values.
\<close>

theorem calculate_rsi_candles:
  assumes "candles \<noteq> []"
    and "list_all2 (\<lambda>d c. map_of d ''close'' = Some c) candles closes"
  shows "calculate_rsi (map Candle candles) period = calculate_rsi (map Price closes) period"
proof -
  from assms obtain d ds c cs where c: "candles = d # ds" and s: "closes = c # cs"
    by (cases candles; cases closes) auto
  have "calculate_rsi (map Candle candles) period =
      (if int (length closes) < period + 1 then Inr (Fin 50)
       else case final_averages closes period of
              Inl e \<Rightarrow> Inl e | Inr avgs \<Rightarrow> Inr (rsi_of_averages avgs))"
    using project_close_candles [OF assms(2)] to_float_array_prices [of closes]
    unfolding c by (simp add: calculate_rsi_def)
  moreover have "closes \<noteq> []" using s by simp
  ultimately show ?thesis by (simp add: calculate_rsi_prices)
qed

text \<open>
  C8 at four candles with closes 3, 2, 3, 1 and period 2.
\<close>

theorem calculate_rsi_candles_witness:
  "calculate_rsi (map Candle [[(''open'', 1), (''close'', 3)], [(''close'', 2)],
       [(''close'', 3), (''volume'', 9)], [(''close'', 1)]]) 2 =
     calculate_rsi (map Price [3, 2, 3, 1]) 2"
proof -
  let ?cs = "[[(''open'', 1), (''close'', 3)], [(''close'', 2)],
       [(''close'', 3), (''volume'', 9)], [(''close'', 1)]] :: (string \<times> real) list list"
  have ne: "?cs \<noteq> []" by simp
  have cl: "list_all2 (\<lambda>d c. map_of d ''close'' = Some c) ?cs [3, 2, 3, 1]" by simp
  from calculate_rsi_candles [OF ne cl, of 2] show ?thesis by simp
qed

subsection \<open>C9: the plugin's interpreter\<close>

text \<open>
  \<^bold>\<open>C9.\<close> The plugin's \<^verbatim>\<open>_interpret_rsi\<close> and the utility \<^verbatim>\<open>interpret_rsi\<close> return
  the same label for every float, hence for every real.
\<close>

theorem plugin_interpret_rsi_eq: "plugin_interpret_rsi rsi = interpret_rsi rsi"
  by (simp add: plugin_interpret_rsi_def interpret_rsi_def)

subsection \<open>C10: totality of the interpreter\<close>

text \<open>
  \<^bold>\<open>C10.\<close> For every real \<open>r\<close>, inside \<open>[0, 100]\<close> or not, \<^verbatim>\<open>interpret_rsi\<close> returns one
  of the three labels; every \<open>r < 30\<close>, negative values included, is oversold and every
  \<open>r > 70\<close>, values above 100 included, is overbought.
\<close>

theorem interpret_rsi_total:
  "interpret_rsi (Fin r) \<in> {''oversold'', ''neutral'', ''overbought''} \<and>
   (r < 30 \<longrightarrow> interpret_rsi (Fin r) = ''oversold'') \<and>
   (70 < r \<longrightarrow> interpret_rsi (Fin r) = ''overbought'')"
  by (simp add: interpret_rsi_def np_gt_def)

text \<open>
  C10 at a negative value and at a value above 100.
\<close>

theorem interpret_rsi_total_witness:
  "interpret_rsi (Fin (- 5)) = ''oversold'' \<and> interpret_rsi (Fin 250) = ''overbought''"
  using interpret_rsi_total [of "- 5"] interpret_rsi_total [of 250] by simp

end
